theory Spec2Isabelle
  imports Complex_Main
begin

section \<open>Numeric conventions\<close>

text \<open>
  The scripts compute with Python floats and NumPy float64 arrays. They are modelled
  as \<^typ>\<open>real\<close>: every operation is exact, rounding is not represented.
  \<^verbatim>\<open>x**2\<close> is \<open>x\<^sup>2\<close>, \<^verbatim>\<open>x**1.2\<close> is \<open>x powr 1.2\<close> (only ever taken of a
  positive base on the simulated path), \<^verbatim>\<open>np.sqrt\<close>, \<^verbatim>\<open>np.sin\<close> and \<^verbatim>\<open>np.pi\<close> are
  \<open>sqrt\<close>, \<open>sin\<close> and \<open>pi\<close>. A NumPy array is a list of fixed length,
  written by index with \<open>xs[i := v]\<close>.
\<close>

text \<open>\<^verbatim>\<open>np.zeros(n)\<close>.\<close>

definition np_zeros :: "nat \<Rightarrow> real list" where
  "np_zeros n = replicate n 0"

text \<open>
  \<^verbatim>\<open>np.linspace(start, stop, num)\<close> for \<open>num > 1\<close>: \<open>num\<close> samples, the step being
  \<open>(stop - start) / (num - 1)\<close>, so that the last sample is \<open>stop\<close>.
\<close>

definition np_linspace :: "real \<Rightarrow> real \<Rightarrow> nat \<Rightarrow> real list" where
  "np_linspace start stop num =
     map (\<lambda>k. start + real k * ((stop - start) / real (num - 1))) [0..<num]"

text \<open>
  \<^verbatim>\<open>np.max\<close> of a non-empty array (NumPy raises ValueError on an empty one; every
  array below has \<open>time_steps = 2000\<close> entries).
\<close>

fun np_max :: "real list \<Rightarrow> real" where
  "np_max (x # xs) = fold max xs x"

text \<open>\<^verbatim>\<open>np.argmax\<close>: the index of the first occurrence of the maximum.\<close>

definition np_argmax :: "real list \<Rightarrow> nat" where
  "np_argmax xs = length (takeWhile (\<lambda>x. x \<noteq> np_max xs) xs)"

section \<open>The instance of \<^verbatim>\<open>MHMPulseJumpingSystem\<close>\<close>

record system =
  mu0 :: real
  g :: real
  mass :: real
  weight :: real
  num_coils :: real
  B_static :: real
  coil_area :: real
  N_turns :: real
  R_coil :: real
  array_factor :: real
  max_current_continuous :: real
  max_current_pulse :: real
  pulse_duration :: real
  pulse_frequency :: real

text \<open>The attributes set by \<^verbatim>\<open>__init__\<close>.\<close>

definition init :: system where
  "init = \<lparr> mu0 = 4 * pi * (1 / 10 ^ 7),
            g = 9.81,
            mass = 79.4,
            weight = 79.4 * 9.81,
            num_coils = 27,
            B_static = 1.8,
            coil_area = 0.44,
            N_turns = 216,
            R_coil = 0.1875,
            array_factor = 18.0,
            max_current_continuous = 300,
            max_current_pulse = 2000,
            pulse_duration = 0.1,
            pulse_frequency = 10 \<rparr>"

text \<open>\<^verbatim>\<open>calculate_field_at_distance\<close>: returns \<open>(B_total, B_static, B_coil)\<close>.\<close>

definition calculate_field_at_distance ::
  "system \<Rightarrow> real \<Rightarrow> real \<Rightarrow> bool \<Rightarrow> real \<times> real \<times> real" where
  "calculate_field_at_distance s distance current_multiplier pulse_mode =
     (let magnet_thickness = 0.03;
          static_ratio = (magnet_thickness / (magnet_thickness + distance))\<^sup>2;
          B_static' = B_static s * static_ratio;
          max_current = (if pulse_mode then max_current_pulse s else max_current_continuous s);
          efficiency = (if pulse_mode then 0.98 else 0.95);
          current = max_current * current_multiplier;
          B_coil_base = (mu0 s * N_turns s * current * 3) / (2 * R_coil s);
          coil_distance_factor = (R_coil s / (R_coil s + distance)) powr 1.2;
          B_coil = B_coil_base * coil_distance_factor * efficiency;
          B_coil' = B_coil * (array_factor s / num_coils s);
          B_total = B_static' + B_coil'
      in (B_total, B_static', B_coil'))"

text \<open>\<^verbatim>\<open>calculate_lift_force\<close>.\<close>

definition calculate_lift_force :: "system \<Rightarrow> real \<Rightarrow> real" where
  "calculate_lift_force s B_total =
     (let total_area = coil_area s * num_coils s
      in (B_total\<^sup>2 * total_area * 0.95) / (2 * mu0 s))"

section \<open>\<^verbatim>\<open>simulate_pulse_jump\<close>\<close>

text \<open>
  The argument \<^verbatim>\<open>pulse_pattern\<close> is a string compared against four names in an
  \<^verbatim>\<open>if/elif\<close> chain with no \<^verbatim>\<open>else\<close>: under any other name \<^verbatim>\<open>current_mult\<close> is
  never bound and the first iteration raises UnboundLocalError.
\<close>

datatype pattern = Single_Boost | Resonant_Pumping | Staircase_Climbing | Tesla_369_Resonance

datatype error = UnboundLocalError

definition pattern_of :: "string \<Rightarrow> pattern option" where
  "pattern_of pulse_pattern =
     (if pulse_pattern = ''Single_Boost'' then Some Single_Boost
      else if pulse_pattern = ''Resonant_Pumping'' then Some Resonant_Pumping
      else if pulse_pattern = ''Staircase_Climbing'' then Some Staircase_Climbing
      else if pulse_pattern = ''Tesla_369_Resonance'' then Some Tesla_369_Resonance
      else None)"

text \<open>Simulation parameters.\<close>

definition dt :: real where
  "dt = 0.001"

definition total_time :: real where
  "total_time = 2.0"

definition time_steps :: nat where
  "time_steps = nat \<lfloor>total_time / dt\<rfloor>"

definition t :: "real list" where
  "t = np_linspace 0 total_time time_steps"

text \<open>The five arrays the loop writes.\<close>

record arrays =
  height :: "real list"
  velocity :: "real list"
  acceleration :: "real list"
  force :: "real list"
  current_profile :: "real list"

text \<open>Initial conditions: all arrays zero, then \<^verbatim>\<open>height[0] = 0.05\<close>, \<^verbatim>\<open>velocity[0] = 0.0\<close>.\<close>

definition initial_arrays :: arrays where
  "initial_arrays =
     \<lparr> height = (np_zeros time_steps)[0 := 0.05],
       velocity = (np_zeros time_steps)[0 := 0.0],
       acceleration = np_zeros time_steps,
       force = np_zeros time_steps,
       current_profile = np_zeros time_steps \<rparr>"

text \<open>
  The current multiplier of each pattern at elapsed time \<open>time\<close>; \<open>h_prev\<close> is
  \<^verbatim>\<open>height[max(0, i-1)]\<close>, read by Resonant_Pumping only.
\<close>

definition current_mult_of :: "system \<Rightarrow> pattern \<Rightarrow> real \<Rightarrow> real \<Rightarrow> real" where
  "current_mult_of s p time h_prev =
     (case p of
        Single_Boost \<Rightarrow> (if 0.5 \<le> time \<and> time \<le> 0.6 then 1.0 else 0.15)
      | Resonant_Pumping \<Rightarrow>
          (let natural_freq = sqrt (g s / h_prev)
           in 0.15 + 0.85 * (1 + sin (2 * pi * natural_freq * time)) / 2)
      | Staircase_Climbing \<Rightarrow>
          fold (\<lambda>pulse_time current_mult.
                  if pulse_time \<le> time \<and> time \<le> pulse_time + 0.1 then 0.8 else current_mult)
               [0.2, 0.6, 1.0, 1.4] 0.15
      | Tesla_369_Resonance \<Rightarrow>
          max 0.05 (0.15 + 0.3 * (sin (2 * pi * 3 * time) +
                                  sin (2 * pi * 6 * time) +
                                  sin (2 * pi * 9 * time)) / 3))"

text \<open>
  Lines 112 to 154 of the loop body at index \<open>i\<close>: the multiplier, the field at
  \<^verbatim>\<open>height[i]\<close> (read before the integration below writes it), the net force and the
  acceleration.
\<close>

definition forces :: "system \<Rightarrow> pattern \<Rightarrow> nat \<Rightarrow> arrays \<Rightarrow> arrays" where
  "forces s p i a =
     (let time = t ! i;
          current_mult = current_mult_of s p time (height a ! nat (max 0 (int i - 1)));
          (B_total, _, _) = calculate_field_at_distance s (height a ! i) current_mult True;
          lift_force = calculate_lift_force s B_total;
          net_force = lift_force - weight s
      in a\<lparr> current_profile := (current_profile a)[i := current_mult],
            force := (force a)[i := net_force],
            acceleration := (acceleration a)[i := net_force / mass s] \<rparr>)"

text \<open>Lines 157 and 158: the Euler update from the entries at \<open>i - 1\<close>.\<close>

definition euler_update :: "nat \<Rightarrow> arrays \<Rightarrow> arrays" where
  "euler_update i a =
     a\<lparr> velocity := (velocity a)[i := velocity a ! (i - 1) + acceleration a ! (i - 1) * dt],
        height := (height a)[i := height a ! (i - 1) + velocity a ! (i - 1) * dt] \<rparr>"

text \<open>Lines 161 to 163: the ground constraint.\<close>

definition ground_constraint :: "nat \<Rightarrow> arrays \<Rightarrow> arrays" where
  "ground_constraint i a =
     (if height a ! i < 0.001
      then a\<lparr> height := (height a)[i := 0.001], velocity := (velocity a)[i := 0] \<rparr>
      else a)"

definition loop_body :: "system \<Rightarrow> pattern \<Rightarrow> nat \<Rightarrow> arrays \<Rightarrow> arrays" where
  "loop_body s p i a =
     (let a1 = forces s p i a
      in if i > 0 then ground_constraint i (euler_update i a1) else a1)"

text \<open>The state after the iterations \<open>0, \<dots>, n - 1\<close>, and after the whole loop.\<close>

definition run_upto :: "system \<Rightarrow> pattern \<Rightarrow> nat \<Rightarrow> arrays" where
  "run_upto s p n = fold (loop_body s p) [0..<n] initial_arrays"

definition run_loop :: "system \<Rightarrow> pattern \<Rightarrow> arrays" where
  "run_loop s p = run_upto s p time_steps"

text \<open>The analysis after the loop.\<close>

definition max_height_cm :: "arrays \<Rightarrow> real" where
  "max_height_cm a = np_max (height a) * 100"

definition max_height_time :: "arrays \<Rightarrow> real" where
  "max_height_time a = t ! np_argmax (height a)"

definition final_height_cm :: "arrays \<Rightarrow> real" where
  "final_height_cm a = last (height a) * 100"

definition kinetic_energy :: "system \<Rightarrow> arrays \<Rightarrow> real list" where
  "kinetic_energy s a = map (\<lambda>v. 0.5 * mass s * v\<^sup>2) (velocity a)"

definition potential_energy :: "system \<Rightarrow> arrays \<Rightarrow> real list" where
  "potential_energy s a = map (\<lambda>h. mass s * g s * h) (height a)"

definition total_energy :: "system \<Rightarrow> arrays \<Rightarrow> real list" where
  "total_energy s a = map (\<lambda>(k, u). k + u) (zip (kinetic_energy s a) (potential_energy s a))"

definition max_energy :: "system \<Rightarrow> arrays \<Rightarrow> real" where
  "max_energy s a = np_max (total_energy s a)"

text \<open>The peak energy in metres of height, before the conversion to centimetres.\<close>

definition energy_height_m :: "system \<Rightarrow> arrays \<Rightarrow> real" where
  "energy_height_m s a = max_energy s a / (mass s * g s)"

definition energy_height_equivalent :: "system \<Rightarrow> arrays \<Rightarrow> real" where
  "energy_height_equivalent s a = energy_height_m s a * 100"

text \<open>The returned dictionary, one field per key.\<close>

record result =
  time_key :: "real list"
  height_key :: "real list"
  velocity_key :: "real list"
  force_key :: "real list"
  current_key :: "real list"
  max_height_key :: real
  energy_height_key :: real

definition result_of :: "system \<Rightarrow> arrays \<Rightarrow> result" where
  "result_of s a =
     \<lparr> time_key = t,
       height_key = map (\<lambda>h. h * 100) (height a),
       velocity_key = velocity a,
       force_key = force a,
       current_key = current_profile a,
       max_height_key = max_height_cm a,
       energy_height_key = energy_height_equivalent s a \<rparr>"

definition simulate_pulse_jump :: "system \<Rightarrow> string \<Rightarrow> error + result" where
  "simulate_pulse_jump s pulse_pattern =
     (case pattern_of pulse_pattern of
        None \<Rightarrow> Inl UnboundLocalError
      | Some p \<Rightarrow> Inr (result_of s (run_loop s p)))"

section \<open>The lift force of the mainstream-validation script\<close>

text \<open>
  \<^verbatim>\<open>calculate_mainstream_levitation\<close> evaluates, over a sweep of 100 coil currents,
  \<^verbatim>\<open>B_total = B_static + B_coil\<close> and \<^verbatim>\<open>F_lift = (B_total**2 * area) / (2 * mu0)\<close>
  elementwise.
\<close>

definition ms_mu0 :: real where
  "ms_mu0 = 4 * pi * (1 / 10 ^ 7)"

definition ms_area :: real where
  "ms_area = 0.25"

definition ms_B_static :: real where
  "ms_B_static = 1.3"

definition ms_N_turns :: real where
  "ms_N_turns = 108"

definition ms_radius :: real where
  "ms_radius = 0.125"

definition ms_currents :: "real list" where
  "ms_currents = np_linspace 1 150 100"

definition ms_B_coil :: "real list" where
  "ms_B_coil = map (\<lambda>c. (ms_mu0 * ms_N_turns * c) / (2 * ms_radius)) ms_currents"

definition ms_B_total :: "real list" where
  "ms_B_total = map (\<lambda>b. ms_B_static + b) ms_B_coil"

text \<open>One element of the vectorised expression, as a function of the field.\<close>

definition F_lift_at :: "real \<Rightarrow> real" where
  "F_lift_at B = (B\<^sup>2 * ms_area) / (2 * ms_mu0)"

definition F_lift :: "real list" where
  "F_lift = map F_lift_at ms_B_total"

section \<open>Auxiliary definitions\<close>

text \<open>All five arrays keep the length \<open>time_steps\<close> they are allocated with.\<close>

definition sized :: "arrays \<Rightarrow> bool" where
  "sized a \<longleftrightarrow> length (height a) = time_steps \<and> length (velocity a) = time_steps \<and>
     length (acceleration a) = time_steps \<and> length (force a) = time_steps \<and>
     length (current_profile a) = time_steps"

text \<open>
  Two instances with attributes assigned after construction, used as concrete inputs:
  one without any field under a very large weight, which reaches the ground at the
  second step, and one without field and without gravity, on which the net force is
  zero throughout.
\<close>

definition heavy :: system where
  "heavy = init\<lparr> weight := 10 ^ 8, B_static := 0, N_turns := 0 \<rparr>"

definition weightless :: system where
  "weightless = init\<lparr> g := 0, weight := 0, B_static := 0, N_turns := 0 \<rparr>"

section \<open>Facts about the loop\<close>

lemma time_steps_eq: "time_steps = 2000"
  by (simp add: time_steps_def total_time_def dt_def)

lemma prev_index: "nat (max 0 (int i - 1)) = i - 1"
  by simp

lemma prev_index': "nat (int i - 1) = i - Suc 0"
  by simp

lemma run_upto_0: "run_upto s p 0 = initial_arrays"
  by (simp add: run_upto_def)

lemma run_upto_Suc: "run_upto s p (Suc n) = loop_body s p n (run_upto s p n)"
  by (simp add: run_upto_def)

lemma sized_initial: "sized initial_arrays"
  by (simp add: sized_def initial_arrays_def np_zeros_def)

lemma sized_loop_body: "sized a \<Longrightarrow> sized (loop_body s p i a)"
  by (simp add: sized_def loop_body_def forces_def euler_update_def ground_constraint_def
      Let_def case_prod_beta prev_index')

lemma sized_run_upto: "sized (run_upto s p n)"
  by (induction n) (simp_all add: run_upto_0 run_upto_Suc sized_initial sized_loop_body)

lemma loop_body_other:
  assumes "j \<noteq> i"
  shows "height (loop_body s p i a) ! j = height a ! j"
    and "velocity (loop_body s p i a) ! j = velocity a ! j"
    and "acceleration (loop_body s p i a) ! j = acceleration a ! j"
    and "force (loop_body s p i a) ! j = force a ! j"
    and "current_profile (loop_body s p i a) ! j = current_profile a ! j"
  using assms
  by (simp_all add: loop_body_def forces_def euler_update_def ground_constraint_def
      Let_def case_prod_beta prev_index')

lemma loop_body_forces:
  assumes "sized a" "i < time_steps"
  shows "current_profile (loop_body s p i a) ! i =
           current_mult_of s p (t ! i) (height a ! (i - 1))"
    and "force (loop_body s p i a) ! i =
           calculate_lift_force s
             (fst (calculate_field_at_distance s (height a ! i)
                     (current_mult_of s p (t ! i) (height a ! (i - 1))) True)) - weight s"
    and "acceleration (loop_body s p i a) ! i = force (loop_body s p i a) ! i / mass s"
  using assms
  by (simp_all add: sized_def loop_body_def forces_def euler_update_def ground_constraint_def
      Let_def case_prod_beta prev_index')

lemma loop_body_motion:
  assumes "sized a" "0 < i" "i < time_steps"
  shows "height (loop_body s p i a) ! i =
           (if height a ! (i - 1) + velocity a ! (i - 1) * dt < 0.001 then 0.001
            else height a ! (i - 1) + velocity a ! (i - 1) * dt)"
    and "velocity (loop_body s p i a) ! i =
           (if height a ! (i - 1) + velocity a ! (i - 1) * dt < 0.001 then 0
            else velocity a ! (i - 1) + acceleration a ! (i - 1) * dt)"
  using assms
  by (simp_all add: sized_def loop_body_def forces_def euler_update_def ground_constraint_def
      Let_def case_prod_beta prev_index')

lemma run_upto_stable_step:
  assumes "j < n"
  shows "height (run_upto s p (Suc n)) ! j = height (run_upto s p n) ! j"
    and "velocity (run_upto s p (Suc n)) ! j = velocity (run_upto s p n) ! j"
    and "acceleration (run_upto s p (Suc n)) ! j = acceleration (run_upto s p n) ! j"
    and "force (run_upto s p (Suc n)) ! j = force (run_upto s p n) ! j"
    and "current_profile (run_upto s p (Suc n)) ! j = current_profile (run_upto s p n) ! j"
  using assms by (simp_all add: run_upto_Suc loop_body_other)

lemma run_upto_stable:
  assumes "j < n" "n \<le> m"
  shows "height (run_upto s p m) ! j = height (run_upto s p n) ! j"
    and "velocity (run_upto s p m) ! j = velocity (run_upto s p n) ! j"
    and "acceleration (run_upto s p m) ! j = acceleration (run_upto s p n) ! j"
    and "force (run_upto s p m) ! j = force (run_upto s p n) ! j"
    and "current_profile (run_upto s p m) ! j = current_profile (run_upto s p n) ! j"
  using assms(2,1)
  by (induction m rule: dec_induct; simp add: run_upto_stable_step)+

lemma run_upto_untouched:
  assumes "n \<le> j"
  shows "height (run_upto s p n) ! j = height initial_arrays ! j"
  using assms
  by (induction n) (simp_all add: run_upto_0 run_upto_Suc loop_body_other)

lemma run_loop_stable:
  assumes "j < n" "n \<le> time_steps"
  shows "height (run_loop s p) ! j = height (run_upto s p n) ! j"
    and "velocity (run_loop s p) ! j = velocity (run_upto s p n) ! j"
    and "acceleration (run_loop s p) ! j = acceleration (run_upto s p n) ! j"
    and "force (run_loop s p) ! j = force (run_upto s p n) ! j"
    and "current_profile (run_loop s p) ! j = current_profile (run_upto s p n) ! j"
  unfolding run_loop_def by (rule run_upto_stable [OF assms])+

lemma euler_update_at:
  assumes "sized a" "i < time_steps"
  shows "velocity (euler_update i a) ! i = velocity a ! (i - 1) + acceleration a ! (i - 1) * dt"
    and "height (euler_update i a) ! i = height a ! (i - 1) + velocity a ! (i - 1) * dt"
  using assms by (simp_all add: sized_def euler_update_def)

lemma forces_keeps:
  "height (forces s p i a) = height a" "velocity (forces s p i a) = velocity a"
  by (simp_all add: forces_def Let_def case_prod_beta)

lemma forces_other:
  "0 < i \<Longrightarrow> acceleration (forces s p i a) ! (i - Suc 0) = acceleration a ! (i - Suc 0)"
  by (simp add: forces_def Let_def case_prod_beta)

lemma sized_forces: "sized a \<Longrightarrow> sized (forces s p i a)"
  by (simp add: sized_def forces_def Let_def case_prod_beta)

lemma run_loop_motion:
  assumes "0 < i" "i < time_steps"
  shows "height (run_loop s p) ! i =
           (if height (run_loop s p) ! (i - 1) + velocity (run_loop s p) ! (i - 1) * dt < 0.001
            then 0.001
            else height (run_loop s p) ! (i - 1) + velocity (run_loop s p) ! (i - 1) * dt)"
    and "velocity (run_loop s p) ! i =
           (if height (run_loop s p) ! (i - 1) + velocity (run_loop s p) ! (i - 1) * dt < 0.001
            then 0
            else velocity (run_loop s p) ! (i - 1) + acceleration (run_loop s p) ! (i - 1) * dt)"
proof -
  have prev: "i - 1 < i" "i \<le> time_steps" "i < Suc i" "Suc i \<le> time_steps"
    using assms by simp_all
  note earlier = run_loop_stable [OF prev(1,2)]
  note here = run_loop_stable [OF prev(3,4)]
  show "height (run_loop s p) ! i =
           (if height (run_loop s p) ! (i - 1) + velocity (run_loop s p) ! (i - 1) * dt < 0.001
            then 0.001
            else height (run_loop s p) ! (i - 1) + velocity (run_loop s p) ! (i - 1) * dt)"
    unfolding earlier here run_upto_Suc
    by (rule loop_body_motion(1) [OF sized_run_upto assms])
  show "velocity (run_loop s p) ! i =
           (if height (run_loop s p) ! (i - 1) + velocity (run_loop s p) ! (i - 1) * dt < 0.001
            then 0
            else velocity (run_loop s p) ! (i - 1) + acceleration (run_loop s p) ! (i - 1) * dt)"
    unfolding earlier here run_upto_Suc
    by (rule loop_body_motion(2) [OF sized_run_upto assms])
qed

lemma initial_height: "j < time_steps \<Longrightarrow> height initial_arrays ! j = (if j = 0 then 0.05 else 0)"
  by (simp add: initial_arrays_def np_zeros_def nth_list_update)

lemma loop_body_0:
  "height (loop_body s p 0 a) = height a" "velocity (loop_body s p 0 a) = velocity a"
  by (simp_all add: loop_body_def forces_keeps)

lemma run_loop_start:
  "height (run_loop s p) ! 0 = 0.05" "velocity (run_loop s p) ! 0 = 0"
proof -
  have pos: "0 < Suc 0" "Suc 0 \<le> time_steps"
    by (simp_all add: time_steps_eq)
  show "height (run_loop s p) ! 0 = 0.05"
    unfolding run_loop_stable(1) [OF pos] run_upto_Suc loop_body_0 run_upto_0
    by (simp add: initial_arrays_def np_zeros_def time_steps_eq)
  show "velocity (run_loop s p) ! 0 = 0"
    unfolding run_loop_stable(2) [OF pos] run_upto_Suc loop_body_0 run_upto_0
    by (simp add: initial_arrays_def np_zeros_def time_steps_eq)
qed

lemma run_loop_forces:
  assumes "i < time_steps"
  shows "current_profile (run_loop s p) ! i =
           current_mult_of s p (t ! i) (height (run_loop s p) ! (i - 1))"
    and "force (run_loop s p) ! i =
           calculate_lift_force s
             (fst (calculate_field_at_distance s (if i = 0 then 0.05 else 0)
                     (current_profile (run_loop s p) ! i) True)) - weight s"
    and "acceleration (run_loop s p) ! i = force (run_loop s p) ! i / mass s"
proof -
  have nxt: "i < Suc i" "Suc i \<le> time_steps"
    using assms by simp_all
  note here = run_loop_stable [OF nxt]
  have read: "height (run_upto s p i) ! i = (if i = 0 then 0.05 else 0)"
    using assms by (simp add: run_upto_untouched initial_height)
  have prev: "height (run_upto s p i) ! (i - 1) = height (run_loop s p) ! (i - 1)"
  proof (cases "i = 0")
    case True
    then show ?thesis
      by (simp add: run_upto_0 run_loop_start initial_arrays_def np_zeros_def time_steps_eq)
  next
    case False
    then have "i - 1 < i" "i \<le> time_steps"
      using assms by simp_all
    from run_loop_stable(1) [OF this] show ?thesis by simp
  qed
  show cur: "current_profile (run_loop s p) ! i =
           current_mult_of s p (t ! i) (height (run_loop s p) ! (i - 1))"
    unfolding here run_upto_Suc loop_body_forces(1) [OF sized_run_upto assms] prev ..
  show "force (run_loop s p) ! i =
           calculate_lift_force s
             (fst (calculate_field_at_distance s (if i = 0 then 0.05 else 0)
                     (current_profile (run_loop s p) ! i) True)) - weight s"
    unfolding cur
    unfolding here run_upto_Suc loop_body_forces(2) [OF sized_run_upto assms] prev read ..
  show "acceleration (run_loop s p) ! i = force (run_loop s p) ! i / mass s"
    unfolding here run_upto_Suc
    by (rule loop_body_forces(3) [OF sized_run_upto assms])
qed

lemma no_field:
  assumes "B_static s = 0" "N_turns s = 0"
  shows "calculate_lift_force s (fst (calculate_field_at_distance s d c True)) = 0"
  using assms by (simp add: calculate_lift_force_def calculate_field_at_distance_def Let_def)

lemma heavy_force:
  assumes "i < time_steps"
  shows "force (run_loop heavy p) ! i = - (10 ^ 8)"
proof -
  have "B_static heavy = 0" "N_turns heavy = 0" "weight heavy = 10 ^ 8"
    by (simp_all add: heavy_def)
  then show ?thesis
    unfolding run_loop_forces(2) [OF assms] by (simp add: no_field)
qed

lemma weightless_force:
  assumes "i < time_steps"
  shows "force (run_loop weightless p) ! i = 0"
proof -
  have "B_static weightless = 0" "N_turns weightless = 0" "weight weightless = 0"
    by (simp_all add: weightless_def)
  then show ?thesis
    unfolding run_loop_forces(2) [OF assms] by (simp add: no_field)
qed

lemma length_run_loop: "length (height (run_loop s p)) = time_steps"
  using sized_run_upto [of s p time_steps] by (simp add: run_loop_def sized_def)

lemma steady_step:
  assumes "mass s \<noteq> 0" and "\<forall>i<time_steps. force (run_loop s p) ! i = 0"
    and "i < time_steps"
  shows "velocity (run_loop s p) ! i = 0 \<and> height (run_loop s p) ! i = 0.05"
  using assms(3)
proof (induction i)
  case 0
  show ?case by (simp add: run_loop_start)
next
  case (Suc i)
  then have i: "i < time_steps" and prev: "velocity (run_loop s p) ! i = 0"
    "height (run_loop s p) ! i = 0.05"
    by simp_all
  have acc: "acceleration (run_loop s p) ! i = 0"
    using assms(2) i by (simp add: run_loop_forces(3))
  have pos: "0 < Suc i" by simp
  show ?case
    unfolding run_loop_motion [OF pos Suc.prems]
    by (simp add: prev acc)
qed

lemma init_lift: "calculate_lift_force init B = B\<^sup>2 * (11286 / 1000) / (8 * pi / 10 ^ 7)"
  by (simp add: calculate_lift_force_def init_def Let_def)

lemma F_lift_at_eq: "F_lift_at B = B\<^sup>2 * (25 / 100) / (8 * pi / 10 ^ 7)"
  by (simp add: F_lift_at_def ms_area_def ms_mu0_def)

lemma abs_le_square: "\<bar>x\<bar> \<le> \<bar>y\<bar> \<Longrightarrow> x\<^sup>2 \<le> (y::real)\<^sup>2"
  by (simp add: abs_le_square_iff)

lemma staircase_range:
  fixes time c :: real
  assumes "0 \<le> c" "c \<le> 1"
  shows "0 \<le> fold (\<lambda>pulse_time current_mult.
           if pulse_time \<le> time \<and> time \<le> pulse_time + 0.1 then 0.8 else current_mult) ps c \<and>
         fold (\<lambda>pulse_time current_mult.
           if pulse_time \<le> time \<and> time \<le> pulse_time + 0.1 then 0.8 else current_mult) ps c \<le> 1"
  using assms by (induction ps arbitrary: c) simp_all

lemma resonant_range:
  fixes x :: real
  assumes "- 1 \<le> x" "x \<le> 1"
  shows "0 \<le> 0.15 + 0.85 * (1 + x) / 2 \<and> 0.15 + 0.85 * (1 + x) / 2 \<le> 1"
proof
  show "0 \<le> 0.15 + 0.85 * (1 + x) / 2" using assms by simp
  show "0.15 + 0.85 * (1 + x) / 2 \<le> 1" using assms by (simp add: field_simps)
qed

lemma tesla_range:
  fixes a b c :: real
  assumes "a \<le> 1" "b \<le> 1" "c \<le> 1"
  shows "0 \<le> max 0.05 (0.15 + 0.3 * (a + b + c) / 3) \<and>
         max 0.05 (0.15 + 0.3 * (a + b + c) / 3) \<le> 1"
  using assms by (simp add: max_def) argo

lemma current_mult_of_range:
  "0 \<le> current_mult_of s p time h \<and> current_mult_of s p time h \<le> 1"
proof (cases p)
  case Single_Boost
  then show ?thesis by (simp add: current_mult_of_def)
next
  case Resonant_Pumping
  show ?thesis
    unfolding Resonant_Pumping current_mult_of_def Let_def pattern.case
    by (rule resonant_range [OF sin_ge_minus_one sin_le_one])
next
  case Staircase_Climbing
  have "(0::real) \<le> 0.15" "(0.15::real) \<le> 1"
    by simp_all
  then show ?thesis
    unfolding Staircase_Climbing current_mult_of_def pattern.case by (rule staircase_range)
next
  case Tesla_369_Resonance
  show ?thesis
    unfolding Tesla_369_Resonance current_mult_of_def pattern.case
    by (rule tesla_range [OF sin_le_one sin_le_one sin_le_one])
qed

lemma simulate_single_boost:
  "simulate_pulse_jump s ''Single_Boost'' = Inr (result_of s (run_loop s Single_Boost))"
  by (simp add: simulate_pulse_jump_def pattern_of_def)

lemma np_max_Cons: "np_max (x # xs) = Max (set (x # xs))"
  by (simp only: np_max.simps Max.set_eq_fold)

lemma np_max_Max: "xs \<noteq> [] \<Longrightarrow> np_max xs = Max (set xs)"
  by (cases xs) (simp, simp only: np_max_Cons)

lemma np_max_ge: "x \<in> set xs \<Longrightarrow> x \<le> np_max xs"
  by (cases "xs = []") (simp_all add: np_max_Max)

lemma np_max_mem: "xs \<noteq> [] \<Longrightarrow> np_max xs \<in> set xs"
  using Max_in [of "set xs"] by (simp add: np_max_Max)

lemma length_arrays:
  "length (height (run_loop s p)) = time_steps" "length (velocity (run_loop s p)) = time_steps"
  using sized_run_upto [of s p time_steps] by (simp_all add: run_loop_def sized_def)

lemma total_energy_nth:
  assumes "k < time_steps"
  shows "total_energy s (run_loop s p) ! k =
           0.5 * mass s * (velocity (run_loop s p) ! k)\<^sup>2 + mass s * g s * (height (run_loop s p) ! k)"
  using assms
  by (simp add: total_energy_def kinetic_energy_def potential_energy_def length_arrays)

lemma length_total_energy: "length (total_energy s (run_loop s p)) = time_steps"
  by (simp add: total_energy_def kinetic_energy_def potential_energy_def length_arrays)

lemma energy_height_bound:
  assumes "0 < mass s" "0 < g s"
  shows "np_max (height (run_loop s p)) \<le> energy_height_m s (run_loop s p)"
proof -
  have ne: "height (run_loop s p) \<noteq> []"
    using length_arrays(1) [of s p] by (auto simp: time_steps_eq)
  from np_max_mem [OF ne] obtain k where k: "k < time_steps"
    and hk: "height (run_loop s p) ! k = np_max (height (run_loop s p))"
    by (auto simp: in_set_conv_nth length_arrays)
  have mg: "0 < mass s * g s"
    using assms by simp
  have "total_energy s (run_loop s p) ! k \<in> set (total_energy s (run_loop s p))"
    using k by (simp add: length_total_energy)
  then have "total_energy s (run_loop s p) ! k \<le> max_energy s (run_loop s p)"
    unfolding max_energy_def by (rule np_max_ge)
  moreover have "mass s * g s * np_max (height (run_loop s p)) \<le> total_energy s (run_loop s p) ! k"
    unfolding total_energy_nth [OF k] hk using assms(1) by simp
  ultimately have "mass s * g s * np_max (height (run_loop s p)) \<le> max_energy s (run_loop s p)"
    by simp
  then show ?thesis
    unfolding energy_height_m_def using mg by (simp add: pos_le_divide_eq mult.commute)
qed

lemma init_field_lower:
  assumes "0 \<le> c" and "d = 0 \<or> d = 0.05"
  shows "1 / 4 \<le> fst (calculate_field_at_distance init d c True)"
proof -
  define k where "k = (0.1875 / (0.1875 + d)) powr 1.2"
  have k: "0 \<le> k"
    unfolding k_def by simp
  have coil: "0 \<le> 4 * pi * (1 / 10 ^ 7) * 216 * (2000 * c) * 3 / (2 * 0.1875) * k * 0.98 * (18.0 / 27)"
    using assms(1) k pi_gt_zero by simp
  have s0: "1 / 4 \<le> 1.8 * (0.03 / (0.03 + (0::real)))\<^sup>2"
    by simp
  have s5: "1 / 4 \<le> 1.8 * (0.03 / (0.03 + (0.05::real)))\<^sup>2"
    by (simp add: power2_eq_square)
  from assms(2) have static: "1 / 4 \<le> 1.8 * (0.03 / (0.03 + d))\<^sup>2"
  proof
    assume "d = 0"
    show ?thesis unfolding \<open>d = 0\<close> by (rule s0)
  next
    assume "d = 0.05"
    show ?thesis unfolding \<open>d = 0.05\<close> by (rule s5)
  qed
  have "fst (calculate_field_at_distance init d c True) =
          1.8 * (0.03 / (0.03 + d))\<^sup>2 +
          4 * pi * (1 / 10 ^ 7) * 216 * (2000 * c) * 3 / (2 * 0.1875) * k * 0.98 * (18.0 / 27)"
    unfolding k_def by (simp add: calculate_field_at_distance_def init_def Let_def)
  with coil static show ?thesis by linarith
qed

lemma init_lift_exceeds_weight:
  assumes "1 / 4 \<le> B"
  shows "weight init < calculate_lift_force init B"
proof -
  have "(1 / 4)\<^sup>2 \<le> B\<^sup>2"
    using assms by (intro power_mono) simp_all
  then have sq: "1 / 16 \<le> B\<^sup>2"
    by (simp add: power2_eq_square)
  have den: "0 < 8 * pi / 10 ^ 7"
    using pi_gt_zero by simp
  have "weight init * (8 * pi / 10 ^ 7) < 779 * (8 * 4 / 10 ^ 7)"
    using pi_less_4 pi_gt_zero by (simp add: init_def)
  also have "\<dots> \<le> (1 / 16) * (11286 / 1000)"
    by simp
  also have "\<dots> \<le> B\<^sup>2 * (11286 / 1000)"
    using sq by simp
  finally have "weight init * (8 * pi / 10 ^ 7) < B\<^sup>2 * (11286 / 1000)" .
  then have "weight init < B\<^sup>2 * (11286 / 1000) / (8 * pi / 10 ^ 7)"
    by (simp only: pos_less_divide_eq [OF den])
  then show ?thesis
    by (simp only: init_lift)
qed

lemma init_force_pos:
  assumes "i < time_steps"
  shows "0 < force (run_loop init p) ! i"
proof -
  have c: "0 \<le> current_profile (run_loop init p) ! i"
    unfolding run_loop_forces(1) [OF assms] using current_mult_of_range by blast
  have d: "(if i = 0 then 0.05 else 0) = (0::real) \<or> (if i = 0 then 0.05 else 0) = (0.05::real)"
    by simp
  from init_lift_exceeds_weight [OF init_field_lower [OF c d]] show ?thesis
    unfolding run_loop_forces(2) [OF assms] by simp
qed

lemma init_acceleration_pos:
  assumes "i < time_steps"
  shows "0 < acceleration (run_loop init p) ! i"
proof -
  have "0 < mass init" by (simp add: init_def)
  with init_force_pos [OF assms] show ?thesis
    unfolding run_loop_forces(3) [OF assms] by simp
qed

lemma init_rising:
  assumes "i < time_steps"
  shows "0 \<le> velocity (run_loop init p) ! i \<and> 0.05 \<le> height (run_loop init p) ! i"
  using assms
proof (induction i)
  case 0
  show ?case by (simp add: run_loop_start)
next
  case (Suc i)
  then have i: "i < time_steps" and v: "0 \<le> velocity (run_loop init p) ! i"
    and h: "0.05 \<le> height (run_loop init p) ! i"
    by simp_all
  have a: "0 < acceleration (run_loop init p) ! i"
    by (rule init_acceleration_pos [OF i])
  have pos: "0 < Suc i" by simp
  have "0 \<le> velocity (run_loop init p) ! i * dt" "0 < acceleration (run_loop init p) ! i * dt"
    using v a by (simp_all add: dt_def)
  with v h show ?case
    unfolding run_loop_motion [OF pos Suc.prems] by simp
qed

lemma init_step:
  assumes "Suc i < time_steps"
  shows "velocity (run_loop init p) ! Suc i =
           velocity (run_loop init p) ! i + acceleration (run_loop init p) ! i * dt"
    and "height (run_loop init p) ! Suc i =
           height (run_loop init p) ! i + velocity (run_loop init p) ! i * dt"
proof -
  have i: "i < time_steps" using assms by simp
  have pos: "0 < Suc i" by simp
  have "0 \<le> velocity (run_loop init p) ! i * dt"
    using init_rising [OF i, of p] by (simp add: dt_def)
  with init_rising [OF i, of p]
  have high: "\<not> height (run_loop init p) ! i + velocity (run_loop init p) ! i * dt < 0.001"
    by simp
  show "velocity (run_loop init p) ! Suc i =
           velocity (run_loop init p) ! i + acceleration (run_loop init p) ! i * dt"
    using high unfolding run_loop_motion(2) [OF pos assms] by simp
  show "height (run_loop init p) ! Suc i =
           height (run_loop init p) ! i + velocity (run_loop init p) ! i * dt"
    using high unfolding run_loop_motion(1) [OF pos assms] by simp
qed

lemma init_velocity_pos:
  assumes "Suc i < time_steps"
  shows "0 < velocity (run_loop init p) ! Suc i"
proof -
  have i: "i < time_steps" using assms by simp
  have "0 < acceleration (run_loop init p) ! i * dt"
    using init_acceleration_pos [OF i, of p] by (simp add: dt_def)
  with init_rising [OF i, of p] show ?thesis
    unfolding init_step(1) [OF assms] by simp
qed

lemma init_height_step:
  assumes "Suc i < time_steps"
  shows "height (run_loop init p) ! i \<le> height (run_loop init p) ! Suc i"
    and "0 < i \<Longrightarrow> height (run_loop init p) ! i < height (run_loop init p) ! Suc i"
proof -
  have i: "i < time_steps" using assms by simp
  have "0 \<le> velocity (run_loop init p) ! i * dt"
    using init_rising [OF i, of p] by (simp add: dt_def)
  then show "height (run_loop init p) ! i \<le> height (run_loop init p) ! Suc i"
    unfolding init_step(2) [OF assms] by simp
  assume "0 < i"
  then obtain j where j: "i = Suc j" by (cases i) simp_all
  have "0 < velocity (run_loop init p) ! i * dt"
    using init_velocity_pos [of j p] i by (simp add: j dt_def)
  then show "height (run_loop init p) ! i < height (run_loop init p) ! Suc i"
    unfolding init_step(2) [OF assms] by simp
qed

lemma init_height_below_last:
  assumes "j \<le> i" "0 < i" "Suc i < time_steps"
  shows "height (run_loop init p) ! j < height (run_loop init p) ! Suc i"
  using assms
proof (induction i)
  case 0
  then show ?case by simp
next
  case (Suc i)
  have up: "height (run_loop init p) ! Suc i < height (run_loop init p) ! Suc (Suc i)"
    using init_height_step(2) [of "Suc i" p] Suc.prems by simp
  have i: "Suc i < time_steps" using Suc.prems by simp
  show ?case
  proof (cases "j \<le> i")
    case True
    show ?thesis
    proof (cases "0 < i")
      case True
      from Suc.IH [OF \<open>j \<le> i\<close> this i] up show ?thesis by simp
    next
      case False
      with \<open>j \<le> i\<close> have "j = i" by simp
      with init_height_step(1) [OF i, of p] up show ?thesis by simp
    qed
  next
    case False
    with Suc.prems have "j = Suc i" by simp
    with up show ?thesis by simp
  qed
qed

lemma np_max_last:
  assumes "xs \<noteq> []" and "\<forall>j<length xs - 1. xs ! j < last xs"
  shows "np_max xs = last xs"
proof -
  have "y \<le> last xs" if "y \<in> set xs" for y
  proof -
    from that obtain j where j: "j < length xs" "xs ! j = y"
      by (auto simp: in_set_conv_nth)
    show ?thesis
    proof (cases "j < length xs - 1")
      case True
      with assms(2) j show ?thesis by auto
    next
      case False
      with j have "j = length xs - 1" by simp
      with j assms(1) show ?thesis by (simp add: last_conv_nth)
    qed
  qed
  moreover have "last xs \<in> set xs"
    using assms(1) by simp
  ultimately have "Max (set xs) = last xs"
    by (intro Max_eqI) simp_all
  then show ?thesis
    by (simp add: np_max_Max [OF assms(1)])
qed

lemma np_argmax_last:
  assumes "xs \<noteq> []" and "\<forall>j<length xs - 1. xs ! j < last xs"
  shows "np_argmax xs = length xs - 1"
proof -
  have split: "xs = butlast xs @ [last xs]"
    using assms(1) by simp
  have "y \<noteq> last xs" if "y \<in> set (butlast xs)" for y
  proof -
    from that obtain j where j: "j < length (butlast xs)" "butlast xs ! j = y"
      by (auto simp: in_set_conv_nth)
    then have "xs ! j = y" "j < length xs - 1"
      by (simp_all add: nth_butlast)
    with assms(2) show ?thesis by auto
  qed
  then have "takeWhile (\<lambda>x. x \<noteq> last xs) (butlast xs @ [last xs]) = butlast xs"
    by (simp add: takeWhile_append2)
  then have "takeWhile (\<lambda>x. x \<noteq> last xs) xs = butlast xs"
    using split by simp
  then show ?thesis
    by (simp add: np_argmax_def np_max_last [OF assms])
qed

lemma t_last: "t ! (time_steps - 1) = total_time"
  by (simp add: t_def np_linspace_def time_steps_eq total_time_def)

lemma init_height_last:
  "height (run_loop init p) \<noteq> []"
  "\<forall>j<length (height (run_loop init p)) - 1.
     height (run_loop init p) ! j < last (height (run_loop init p))"
  "last (height (run_loop init p)) = height (run_loop init p) ! 1999"
proof -
  show ne: "height (run_loop init p) \<noteq> []"
    using length_run_loop [of init p] by (auto simp: time_steps_eq)
  show l: "last (height (run_loop init p)) = height (run_loop init p) ! 1999"
    by (simp add: last_conv_nth [OF ne] length_run_loop time_steps_eq)
  have "height (run_loop init p) ! j < height (run_loop init p) ! Suc 1998" if "j < 1999" for j
    using that by (intro init_height_below_last) (simp_all add: time_steps_eq)
  then show "\<forall>j<length (height (run_loop init p)) - 1.
     height (run_loop init p) ! j < last (height (run_loop init p))"
    by (simp add: l length_run_loop time_steps_eq)
qed

section \<open>The integration step\<close>

text \<open>
  C1. In \<^verbatim>\<open>simulate_pulse_jump\<close>, at every step \<open>i \<ge> 1\<close> the Euler update sets
  \<open>velocity[i] = velocity[i-1] + acceleration[i-1] * dt\<close> and
  \<open>height[i] = height[i-1] + velocity[i-1] * dt\<close>, the position being advanced with the
  previous step's velocity; these are the values in the arrays before the ground
  constraint is applied, and the entries at \<open>i - 1\<close> are those of the finished run.
\<close>
theorem euler_update_previous_step:
  assumes "1 \<le> i" and "i < time_steps"
  shows "velocity (euler_update i (forces s p i (run_upto s p i))) ! i =
           velocity (run_loop s p) ! (i - 1) + acceleration (run_loop s p) ! (i - 1) * dt \<and>
         height (euler_update i (forces s p i (run_upto s p i))) ! i =
           height (run_loop s p) ! (i - 1) + velocity (run_loop s p) ! (i - 1) * dt \<and>
         run_upto s p (Suc i) =
           ground_constraint i (euler_update i (forces s p i (run_upto s p i)))"
proof -
  have prev: "i - 1 < i" "i \<le> time_steps" "i - 1 \<noteq> i"
    using assms by simp_all
  note earlier = run_loop_stable [OF prev(1,2)]
  have sz: "sized (forces s p i (run_upto s p i))"
    by (rule sized_forces [OF sized_run_upto])
  have "velocity (euler_update i (forces s p i (run_upto s p i))) ! i =
           velocity (run_loop s p) ! (i - 1) + acceleration (run_loop s p) ! (i - 1) * dt"
    unfolding earlier euler_update_at(1) [OF sz assms(2)]
    using assms(1) by (simp add: forces_keeps forces_other)
  moreover have "height (euler_update i (forces s p i (run_upto s p i))) ! i =
           height (run_loop s p) ! (i - 1) + velocity (run_loop s p) ! (i - 1) * dt"
    unfolding earlier euler_update_at(2) [OF sz assms(2)]
    by (simp add: forces_keeps)
  moreover have "run_upto s p (Suc i) =
           ground_constraint i (euler_update i (forces s p i (run_upto s p i)))"
    using assms(1) by (simp add: run_upto_Suc loop_body_def)
  ultimately show ?thesis by simp
qed

theorem euler_update_previous_step_witness:
  "(1::nat) \<le> 1 \<and> 1 < time_steps \<and>
   velocity (euler_update 1 (forces init Single_Boost 1 (run_upto init Single_Boost 1))) ! 1 =
     velocity (run_loop init Single_Boost) ! 0 + acceleration (run_loop init Single_Boost) ! 0 * dt \<and>
   height (euler_update 1 (forces init Single_Boost 1 (run_upto init Single_Boost 1))) ! 1 =
     height (run_loop init Single_Boost) ! 0 + velocity (run_loop init Single_Boost) ! 0 * dt"
  using euler_update_previous_step [of 1 init Single_Boost]
  by (simp add: time_steps_eq)

text \<open>
  C2. Ground clamp: at every step \<open>i \<ge> 1\<close>, if the Euler position update gives a height
  below 0.001 m, the height of that step is exactly 0.001 m and its velocity exactly 0;
  otherwise both are the values of the Euler update.
\<close>
theorem ground_clamp:
  assumes "1 \<le> i" and "i < time_steps"
  shows "(height (run_loop s p) ! i, velocity (run_loop s p) ! i) =
           (if height (run_loop s p) ! (i - 1) + velocity (run_loop s p) ! (i - 1) * dt < 0.001
            then (0.001, 0)
            else (height (run_loop s p) ! (i - 1) + velocity (run_loop s p) ! (i - 1) * dt,
                  velocity (run_loop s p) ! (i - 1) + acceleration (run_loop s p) ! (i - 1) * dt))"
proof -
  have "0 < i" using assms(1) by simp
  from run_loop_motion [OF this assms(2)] show ?thesis by simp
qed

theorem ground_clamp_witness:
  "(1::nat) \<le> 2 \<and> 2 < time_steps \<and>
   height (run_loop heavy Single_Boost) ! 1 + velocity (run_loop heavy Single_Boost) ! 1 * dt < 0.001 \<and>
   (height (run_loop heavy Single_Boost) ! 2, velocity (run_loop heavy Single_Boost) ! 2) = (0.001, 0)"
proof -
  have a0: "acceleration (run_loop heavy Single_Boost) ! 0 = - (10 ^ 8) / mass heavy"
    by (simp add: run_loop_forces(3) heavy_force time_steps_eq)
  have h1: "height (run_loop heavy Single_Boost) ! 1 = 0.05"
    by (subst run_loop_motion(1)) (simp_all add: time_steps_eq run_loop_start dt_def)
  have v1: "velocity (run_loop heavy Single_Boost) ! 1 = - (10 ^ 8) / mass heavy * dt"
    by (subst run_loop_motion(2)) (simp_all add: time_steps_eq run_loop_start dt_def a0)
  have low: "height (run_loop heavy Single_Boost) ! 1 + velocity (run_loop heavy Single_Boost) ! 1 * dt < 0.001"
    unfolding h1 v1 by (simp add: heavy_def init_def dt_def)
  have idx: "(2::nat) - 1 = 1" by simp
  from ground_clamp [of 2 heavy Single_Boost] low show ?thesis
    by (simp add: time_steps_eq idx)
qed

section \<open>Steady state\<close>

text \<open>
  C3. Steady-state invariant: if the net force is exactly zero at every time step (so
  that the acceleration is zero at every step; a zero mass would make the quotient
  undefined in NumPy and is excluded), then at every step the velocity is zero and the
  height is the initial 0.05 m; in particular the final height equals the initial one.
\<close>
theorem steady_state:
  assumes "mass s \<noteq> 0" and "\<forall>i<time_steps. force (run_loop s p) ! i = 0"
  shows "(\<forall>i<time_steps. velocity (run_loop s p) ! i = 0 \<and> height (run_loop s p) ! i = 0.05) \<and>
         last (height (run_loop s p)) = height (run_loop s p) ! 0"
proof -
  have all: "\<forall>i<time_steps. velocity (run_loop s p) ! i = 0 \<and> height (run_loop s p) ! i = 0.05"
    using steady_step [OF assms] by blast
  have ne: "height (run_loop s p) \<noteq> []"
    using length_run_loop [of s p] by (auto simp: time_steps_eq)
  have "last (height (run_loop s p)) = height (run_loop s p) ! (time_steps - 1)"
    by (simp add: last_conv_nth [OF ne] length_run_loop)
  also have "\<dots> = 0.05"
    using all by (simp add: time_steps_eq)
  finally show ?thesis
    using all by (simp add: run_loop_start)
qed

theorem steady_state_witness:
  "mass weightless = 79.4 \<and>
   force (run_loop weightless Single_Boost) = replicate time_steps 0 \<and>
   velocity (run_loop weightless Single_Boost) = replicate time_steps 0 \<and>
   height (run_loop weightless Single_Boost) = replicate time_steps 0.05 \<and>
   last (height (run_loop weightless Single_Boost)) = 0.05"
proof -
  have m: "mass weightless \<noteq> 0" and m': "mass weightless = 79.4"
    by (simp_all add: weightless_def init_def)
  have f: "\<forall>i<time_steps. force (run_loop weightless Single_Boost) ! i = 0"
    by (simp add: weightless_force)
  have len: "length (force (run_loop weightless Single_Boost)) = time_steps"
    "length (velocity (run_loop weightless Single_Boost)) = time_steps"
    "length (height (run_loop weightless Single_Boost)) = time_steps"
    using sized_run_upto [of weightless Single_Boost time_steps]
    by (simp_all add: run_loop_def sized_def)
  note all = steady_state [OF m f]
  have "force (run_loop weightless Single_Boost) = replicate time_steps 0"
    using f len(1) by (intro nth_equalityI) simp_all
  moreover have "velocity (run_loop weightless Single_Boost) = replicate time_steps 0"
    using all len(2) by (intro nth_equalityI) simp_all
  moreover have "height (run_loop weightless Single_Boost) = replicate time_steps 0.05"
    using all len(3) by (intro nth_equalityI) simp_all
  moreover have "last (height (run_loop weightless Single_Boost)) = 0.05"
    using all by (simp add: run_loop_start)
  ultimately show ?thesis
    using m' by simp
qed

section \<open>The lift force\<close>

text \<open>
  C4, as amended. \<^verbatim>\<open>calculate_lift_force\<close> computes the magnetic-pressure formula
  scaled by the factor 0.95 the code multiplies in: for every field \<open>B\<close>,
  \<open>calculate_lift_force(B) = B\<^sup>2 * (coil_area * num_coils) * 0.95 / (2 * mu0)\<close>.
\<close>
theorem lift_force_formula:
  "calculate_lift_force s B = B\<^sup>2 * (coil_area s * num_coils s) * 0.95 / (2 * mu0 s)"
  by (simp add: calculate_lift_force_def Let_def algebra_simps)

text \<open>
  The formula without the factor is not what the code returns: at \<open>B = 1\<close> on the
  instance built by \<^verbatim>\<open>__init__\<close> the two values differ.
\<close>

theorem lift_force_without_factor_counterexample:
  "calculate_lift_force init 1 \<noteq> 1\<^sup>2 * (coil_area init * num_coils init) / (2 * mu0 init)"
proof -
  have "calculate_lift_force init 1 = (11286 / 1000) / (8 * pi / 10 ^ 7)"
    by (simp add: init_lift)
  moreover have "1\<^sup>2 * (coil_area init * num_coils init) / (2 * mu0 init) = (11880 / 1000) / (8 * pi / 10 ^ 7)"
    by (simp add: init_def)
  moreover have "(11286 / 1000) / (8 * pi / 10 ^ 7) \<noteq> (11880 / 1000) / (8 * pi / 10 ^ 7)"
    using pi_gt_zero by simp
  ultimately show ?thesis by simp
qed

text \<open>
  C5. The lift force as implemented, \<^verbatim>\<open>calculate_lift_force\<close> on the instance built by
  \<^verbatim>\<open>__init__\<close> and one element of the vectorised \<^verbatim>\<open>F_lift\<close> of the
  mainstream-validation script, is monotonically non-decreasing in \<open>\<bar>B\<bar>\<close>, and is 0 at
  \<open>B = 0\<close>.
\<close>
theorem lift_force_monotone:
  "(\<bar>B1\<bar> \<le> \<bar>B2\<bar> \<longrightarrow>
      calculate_lift_force init B1 \<le> calculate_lift_force init B2 \<and> F_lift_at B1 \<le> F_lift_at B2) \<and>
   calculate_lift_force init 0 = 0 \<and> F_lift_at 0 = 0"
proof -
  have d: "0 < 8 * pi / 10 ^ 7"
    using pi_gt_zero by simp
  have "calculate_lift_force init B1 \<le> calculate_lift_force init B2 \<and> F_lift_at B1 \<le> F_lift_at B2"
    if "\<bar>B1\<bar> \<le> \<bar>B2\<bar>"
  proof -
    from that have sq: "B1\<^sup>2 \<le> B2\<^sup>2" by (rule abs_le_square)
    then have "B1\<^sup>2 * (11286 / 1000) \<le> B2\<^sup>2 * (11286 / 1000)"
      and "B1\<^sup>2 * (25 / 100) \<le> B2\<^sup>2 * (25 / 100)"
      by simp_all
    then show ?thesis
      unfolding init_lift F_lift_at_eq using d by (simp add: divide_right_mono)
  qed
  moreover have "calculate_lift_force init 0 = 0" "F_lift_at 0 = 0"
    by (simp_all add: init_lift F_lift_at_eq)
  ultimately show ?thesis by blast
qed

theorem lift_force_monotone_witness:
  "\<bar>1::real\<bar> \<le> \<bar>- 2\<bar> \<and> calculate_lift_force init 1 \<le> calculate_lift_force init (- 2) \<and>
   F_lift_at 1 \<le> F_lift_at (- 2) \<and> calculate_lift_force init 0 = 0 \<and> F_lift_at 0 = 0"
  using lift_force_monotone [of 1 "- 2"] by simp

section \<open>The pulse patterns\<close>

text \<open>
  C6. For each of the four pulse patterns the current multiplier lies in \<open>[0, 1]\<close>: at
  every elapsed time and every previous height (the height enters Resonant_Pumping
  only), and hence at every time step of the simulation.
\<close>
theorem current_multiplier_in_unit_interval:
  "(0 \<le> current_mult_of s p time h \<and> current_mult_of s p time h \<le> 1) \<and>
   (i < time_steps \<longrightarrow>
      0 \<le> current_profile (run_loop s p) ! i \<and> current_profile (run_loop s p) ! i \<le> 1)"
  by (simp add: run_loop_forces(1) current_mult_of_range)

theorem current_multiplier_in_unit_interval_witness:
  "(0::nat) < time_steps \<and>
   0 \<le> current_profile (run_loop init Resonant_Pumping) ! 0 \<and>
   current_profile (run_loop init Resonant_Pumping) ! 0 \<le> 1"
  using current_multiplier_in_unit_interval [of init Resonant_Pumping 0 1 0]
  by (simp add: time_steps_eq)

section \<open>The returned analysis\<close>

text \<open>
  C7. Energy bookkeeping: for every run of \<^verbatim>\<open>simulate_pulse_jump\<close> (positive mass and
  gravity, as the division by \<open>mass * g\<close> needs), the reported energy-equivalent
  height is at least the reported maximum height, both in centimetres.
\<close>
theorem energy_height_ge_max_height:
  assumes "simulate_pulse_jump s pulse_pattern = Inr r" and "0 < mass s" and "0 < g s"
  shows "max_height_key r \<le> energy_height_key r"
proof (cases "pattern_of pulse_pattern")
  case None
  with assms(1) show ?thesis by (simp add: simulate_pulse_jump_def)
next
  case (Some p)
  with assms(1) have r: "r = result_of s (run_loop s p)"
    by (simp add: simulate_pulse_jump_def)
  show ?thesis
    unfolding r using energy_height_bound [OF assms(2,3), of p]
    by (simp add: result_of_def max_height_cm_def energy_height_equivalent_def)
qed

theorem energy_height_ge_max_height_witness:
  "simulate_pulse_jump init ''Tesla_369_Resonance'' =
     Inr (result_of init (run_loop init Tesla_369_Resonance)) \<and>
   0 < mass init \<and> 0 < g init \<and>
   max_height_key (result_of init (run_loop init Tesla_369_Resonance))
     \<le> energy_height_key (result_of init (run_loop init Tesla_369_Resonance))"
proof -
  have run: "simulate_pulse_jump init ''Tesla_369_Resonance'' =
     Inr (result_of init (run_loop init Tesla_369_Resonance))"
    by (simp add: simulate_pulse_jump_def pattern_of_def)
  have m: "0 < mass init" and gr: "0 < g init"
    by (simp_all add: init_def)
  from energy_height_ge_max_height [OF run m gr] run m gr show ?thesis
    by simp
qed

text \<open>
  C10. Units of the returned dictionary: for every pulse pattern, \<^verbatim>\<open>'height'\<close>,
  \<^verbatim>\<open>'max_height'\<close> and \<^verbatim>\<open>'energy_height'\<close> are 100 times the internally simulated
  values in metres (centimetres), while \<^verbatim>\<open>'velocity'\<close>, \<^verbatim>\<open>'force'\<close> and \<^verbatim>\<open>'time'\<close>
  are returned unscaled.
\<close>
theorem result_units:
  assumes "simulate_pulse_jump s pulse_pattern = Inr r"
  shows "\<exists>p. pattern_of pulse_pattern = Some p \<and>
           height_key r = map (\<lambda>h. 100 * h) (height (run_loop s p)) \<and>
           max_height_key r = 100 * np_max (height (run_loop s p)) \<and>
           energy_height_key r = 100 * energy_height_m s (run_loop s p) \<and>
           velocity_key r = velocity (run_loop s p) \<and>
           force_key r = force (run_loop s p) \<and>
           time_key r = t"
proof (cases "pattern_of pulse_pattern")
  case None
  with assms show ?thesis by (simp add: simulate_pulse_jump_def)
next
  case (Some p)
  with assms have "r = result_of s (run_loop s p)"
    by (simp add: simulate_pulse_jump_def)
  then show ?thesis
    using Some
    by (simp add: result_of_def max_height_cm_def energy_height_equivalent_def mult.commute)
qed

theorem result_units_witness:
  "simulate_pulse_jump init ''Single_Boost'' = Inr (result_of init (run_loop init Single_Boost)) \<and>
   (\<exists>p. pattern_of ''Single_Boost'' = Some p \<and>
      height_key (result_of init (run_loop init Single_Boost)) = map (\<lambda>h. 100 * h) (height (run_loop init p)) \<and>
      max_height_key (result_of init (run_loop init Single_Boost)) = 100 * np_max (height (run_loop init p)) \<and>
      energy_height_key (result_of init (run_loop init Single_Boost)) = 100 * energy_height_m init (run_loop init p) \<and>
      velocity_key (result_of init (run_loop init Single_Boost)) = velocity (run_loop init p) \<and>
      force_key (result_of init (run_loop init Single_Boost)) = force (run_loop init p) \<and>
      time_key (result_of init (run_loop init Single_Boost)) = t)"
  using result_units [OF simulate_single_boost [of init]] simulate_single_boost [of init]
  by simp

section \<open>The Single_Boost scenario\<close>

text \<open>
  C9. What the code does on the Single_Boost scenario (mass 79.4 kg, initial height
  0.05 m, the instance built by \<^verbatim>\<open>__init__\<close>): the lift force exceeds the weight at
  every step, since the field is evaluated at \<^verbatim>\<open>height[i]\<close> before that entry is
  written (distance 0 for every \<open>i \<ge> 1\<close>) and the static field alone outweighs the
  load. The height therefore never decreases: the maximum is taken at the last sample,
  at the end of the 2 s, the final height is the peak height, and the peak exceeds the
  initial 5 cm.
\<close>
theorem single_boost_rises_to_the_end:
  "np_argmax (height (run_loop init Single_Boost)) = time_steps - 1 \<and>
   max_height_time (run_loop init Single_Boost) = total_time \<and>
   final_height_cm (run_loop init Single_Boost) = max_height_cm (run_loop init Single_Boost) \<and>
   5 < max_height_cm (run_loop init Single_Boost) \<and>
   simulate_pulse_jump init ''Single_Boost'' = Inr (result_of init (run_loop init Single_Boost)) \<and>
   max_height_key (result_of init (run_loop init Single_Boost)) =
     final_height_cm (run_loop init Single_Boost)"
proof -
  note facts = init_height_last [of Single_Boost]
  have arg: "np_argmax (height (run_loop init Single_Boost)) = time_steps - 1"
    using np_argmax_last [OF facts(1,2)] by (simp add: length_run_loop)
  have mx: "np_max (height (run_loop init Single_Boost)) = last (height (run_loop init Single_Boost))"
    by (rule np_max_last [OF facts(1,2)])
  have "height (run_loop init Single_Boost) ! 0 < last (height (run_loop init Single_Boost))"
    using facts(2) by (simp add: length_run_loop time_steps_eq)
  then have above: "0.05 < last (height (run_loop init Single_Boost))"
    by (simp add: run_loop_start)
  have tm: "max_height_time (run_loop init Single_Boost) = total_time"
    unfolding max_height_time_def arg by (rule t_last)
  have fin: "final_height_cm (run_loop init Single_Boost) = max_height_cm (run_loop init Single_Boost)"
    by (simp add: final_height_cm_def max_height_cm_def mx)
  have high: "5 < max_height_cm (run_loop init Single_Boost)"
    using above by (simp add: max_height_cm_def mx)
  have key: "max_height_key (result_of init (run_loop init Single_Boost)) =
     final_height_cm (run_loop init Single_Boost)"
    by (simp add: result_of_def fin)
  from arg tm fin high simulate_single_boost [of init] key show ?thesis
    by blast
qed

end
